theory Spec2Isabelle
  imports Complex_Main
begin

section \<open>Strings and dates\<close>

text \<open>
  Status values are JavaScript strings. They are modelled as \<open>string\<close>; \<open>toLowerCase\<close>
  maps the ASCII capitals to their lower-case letters and leaves every other character,
  \<open>includes_str s p\<close> is JavaScript's substring test \<open>s.includes(p)\<close>.
\<close>

definition lowerChar :: "char \<Rightarrow> char" where
  "lowerChar c =
     (let n = (of_char c :: nat) in if 65 \<le> n \<and> n \<le> 90 then char_of (n + 32) else c)"

definition toLowerCase :: "string \<Rightarrow> string" where
  "toLowerCase s = map lowerChar s"

fun startsWith :: "string \<Rightarrow> string \<Rightarrow> bool" where
  "startsWith s [] = True"
| "startsWith [] (p # ps) = False"
| "startsWith (c # cs) (p # ps) = (c = p \<and> startsWith cs ps)"

fun includes_str :: "string \<Rightarrow> string \<Rightarrow> bool" where
  "includes_str [] p = (p = [])"
| "includes_str (c # cs) p = (startsWith (c # cs) p \<or> includes_str cs p)"

text \<open>
  A JavaScript \<open>Date\<close> is its time value: the milliseconds since the epoch, an integer.
  Timestamps of records are taken as already parsed; \<open>None\<close> is a \<open>null\<close> timestamp.
  The local time zone is a fixed offset \<open>tz\<close> in milliseconds (local time is the time
  value plus \<open>tz\<close>); \<open>setHours0 tz d\<close> is \<open>d.setHours(0, 0, 0, 0)\<close>, local midnight of the
  day of \<open>d\<close>.
\<close>

type_synonym Date = int

definition msPerDay :: int where
  "msPerDay = 86400000"

definition setHours0 :: "int \<Rightarrow> Date \<Rightarrow> Date" where
  "setHours0 tz d = d - (d + tz) mod msPerDay"

text \<open>\<open>new Date(record.timestamp)\<close>: a \<open>null\<close> timestamp gives the epoch.\<close>

definition newDate :: "Date option \<Rightarrow> Date" where
  "newDate ts = (case ts of None \<Rightarrow> 0 | Some t \<Rightarrow> t)"

text \<open>
  Modelled from the spec: \<open>isDateInArray\<close> of \<open>utils/attendanceUtils\<close>, which is not among
  the sources. The spec, section 4.3: the membership test uses calendar-date equality, not
  instant equality (the time of day is truncated before comparing).
\<close>

definition isDateInArray :: "int \<Rightarrow> Date \<Rightarrow> Date list \<Rightarrow> bool" where
  "isDateInArray tz date dateArray =
     list_ex (\<lambda>d. setHours0 tz d = setHours0 tz date) dateArray"

section \<open>Rows of the table attendance_records\<close>

record Metadata =
  name :: "string option"
  employee_id :: "string option"
  department :: "string option"
  position :: "string option"
  firebase_image_url :: "string option"
  faceDescriptor :: "string option"

record DeviceInfo =
  metadata :: "Metadata option"

record AttendanceRow =
  row_id :: string
  user_id :: "string option"
  timestamp :: "Date option"
  status :: string
  device_info :: "DeviceInfo option"

text \<open>
  The answer of one Supabase query: the promise either resolves to \<open>{ data, error }\<close> or
  rejects (the \<open>await\<close> throws).
\<close>

datatype response =
  Resolved "AttendanceRow list option" "string option"
| Rejected string

section \<open>RecognitionService.ts\<close>

text \<open>
  Descriptors are \<open>Float32Array\<close>s; their components, read as JavaScript numbers, are
  doubles. A double is a finite number (modelled as the real number it is), one of the
  two infinities, or NaN; \<open>dless\<close> is the comparison \<open><\<close> of doubles, which is false
  whenever an operand is NaN.
\<close>

datatype double = Finite real | PosInf | NegInf | NaN

fun dless :: "double \<Rightarrow> double \<Rightarrow> bool" where
  "dless (Finite x) (Finite y) = (x < y)"
| "dless (Finite x) PosInf = True"
| "dless NegInf (Finite y) = True"
| "dless NegInf PosInf = True"
| "dless a b = False"

text \<open>
  The arithmetic of doubles rounds, so it is not the arithmetic of the reals. The four
  operations that \<open>calculateDistance\<close> and \<open>recognizeFace\<close> use (\<open>-\<close>, \<open>*\<close>, \<open>+\<close> and
  \<open>Math.sqrt\<close> on doubles) are parameters of the model, the fields of \<open>float_ops\<close>, and
  nothing is assumed about them.
\<close>

type_synonym descriptor = "double list"

record float_ops =
  f_sub :: "double \<Rightarrow> double \<Rightarrow> double"
  f_mul :: "double \<Rightarrow> double \<Rightarrow> double"
  f_add :: "double \<Rightarrow> double \<Rightarrow> double"
  f_sqrt :: "double \<Rightarrow> double"

record Employee =
  emp_id :: string
  emp_name :: string
  emp_employee_id :: string
  emp_department :: string
  emp_position :: string
  emp_firebase_image_url :: string

record RecognitionResult =
  recognized :: bool
  employee :: "Employee option"
  confidence :: "double option"

definition notRecognized :: RecognitionResult where
  "notRecognized = \<lparr>recognized = False, employee = None, confidence = None\<rparr>"

text \<open>
  \<open>calculateDistance\<close>: throws on different lengths; else the loop adds up the squared
  differences, every step in double arithmetic, and the result is \<open>Math.sqrt\<close> of the sum.
\<close>

definition calculateDistance :: "float_ops \<Rightarrow> descriptor \<Rightarrow> descriptor \<Rightarrow> string + double" where
  "calculateDistance fl descriptor1 descriptor2 =
     (if length descriptor1 \<noteq> length descriptor2
      then Inl ''Face descriptors have different dimensions''
      else Inr (f_sqrt fl
                  (foldl (\<lambda>sum (a, b). let diff = f_sub fl a b
                                          in f_add fl sum (f_mul fl diff diff))
                     (Finite 0) (zip descriptor1 descriptor2))))"

text \<open>
  The stored descriptor string of a row: \<open>deviceInfo?.metadata?.faceDescriptor\<close>, which the
  loop accepts when it is a non-empty string.
\<close>

definition metadataOf :: "AttendanceRow \<Rightarrow> Metadata option" where
  "metadataOf r = (case device_info r of None \<Rightarrow> None | Some di \<Rightarrow> metadata di)"

definition storedDescriptor :: "AttendanceRow \<Rightarrow> string option" where
  "storedDescriptor r =
     (case metadataOf r of
        None \<Rightarrow> None
      | Some md \<Rightarrow>
          (case faceDescriptor md of
             None \<Rightarrow> None
           | Some s \<Rightarrow> if s = [] then None else Some s))"

text \<open>
  The body of the \<open>try\<close> inside the loop, for one row. \<open>stringToDescriptor\<close> (ModelService,
  not among the sources) is the parameter \<open>decode\<close>; \<open>None\<close> is a throw. Every throw in
  the body is caught by the loop's \<open>catch\<close>, so the row is skipped: \<open>None\<close>.
\<close>

definition compareRow :: "float_ops \<Rightarrow> (string \<Rightarrow> descriptor option) \<Rightarrow> descriptor
    \<Rightarrow> AttendanceRow \<Rightarrow> double option" where
  "compareRow fl decode faceDesc r =
     (case storedDescriptor r of
        None \<Rightarrow> None
      | Some s \<Rightarrow>
          (case decode s of
             None \<Rightarrow> None
           | Some registeredDescriptor \<Rightarrow>
               (case calculateDistance fl faceDesc registeredDescriptor of
                  Inl e \<Rightarrow> None
                | Inr distance \<Rightarrow> Some distance)))"

text \<open>The loop over the rows, carrying \<open>(bestMatch, bestDistance)\<close>.\<close>

fun scanRows :: "float_ops \<Rightarrow> (string \<Rightarrow> descriptor option) \<Rightarrow> descriptor
    \<Rightarrow> AttendanceRow list \<Rightarrow> AttendanceRow option \<times> double
    \<Rightarrow> AttendanceRow option \<times> double"
  where
  "scanRows fl decode faceDesc [] best = best"
| "scanRows fl decode faceDesc (r # rs) (bestMatch, bestDistance) =
     (case compareRow fl decode faceDesc r of
        None \<Rightarrow> scanRows fl decode faceDesc rs (bestMatch, bestDistance)
      | Some distance \<Rightarrow>
          if dless distance bestDistance
          then scanRows fl decode faceDesc rs (Some r, distance)
          else scanRows fl decode faceDesc rs (bestMatch, bestDistance))"

text \<open>\<open>x || d\<close> on an optional string: \<open>null\<close> and the empty string are falsy.\<close>

definition orElse :: "string option \<Rightarrow> string \<Rightarrow> string" where
  "orElse x d = (case x of None \<Rightarrow> d | Some s \<Rightarrow> if s = [] then d else s)"

definition toEmployee :: "AttendanceRow \<Rightarrow> Metadata \<Rightarrow> Employee" where
  "toEmployee bestMatch employeeData =
     \<lparr>emp_id = orElse (user_id bestMatch) ''unknown'',
      emp_name = orElse (name employeeData) ''Unknown'',
      emp_employee_id = orElse (employee_id employeeData) ''Unknown'',
      emp_department = orElse (department employeeData) ''Unknown'',
      emp_position = orElse (position employeeData) ''Unknown'',
      emp_firebase_image_url = orElse (firebase_image_url employeeData) []\<rparr>"

text \<open>
  The literal \<open>0.6\<close> of line 62 is the double nearest to six tenths, which is
  5404319552844595 / 2^53 and lies below six tenths.
\<close>

definition threshold :: double where
  "threshold = Finite (5404319552844595 / 2 ^ 53)"

text \<open>
  \<open>recognizeFace\<close>, given the answer of the query for the registered rows. \<open>Inl\<close> is a
  thrown error. The string that line 41 computes with \<open>descriptorToString\<close> (ModelService,
  not among the sources) is never used; the call is taken to return and is left out.
\<close>

definition recognizeFace :: "float_ops \<Rightarrow> (string \<Rightarrow> descriptor option) \<Rightarrow> descriptor
    \<Rightarrow> response \<Rightarrow> string + RecognitionResult" where
  "recognizeFace fl decode faceDesc resp =
     (case resp of
        Rejected e \<Rightarrow> Inl e
      | Resolved data error \<Rightarrow>
          (case error of
             Some msg \<Rightarrow> Inl (''Database query failed: '' @ msg)
           | None \<Rightarrow>
               (case data of
                  None \<Rightarrow> Inr notRecognized
                | Some rows \<Rightarrow>
                    if rows = [] then Inr notRecognized
                    else
                      (case scanRows fl decode faceDesc rows (None, threshold) of
                         (None, bestDistance) \<Rightarrow> Inr notRecognized
                       | (Some bestMatch, bestDistance) \<Rightarrow>
                           (case metadataOf bestMatch of
                              None \<Rightarrow> Inr notRecognized
                            | Some employeeData \<Rightarrow>
                                Inr \<lparr>recognized = True,
                                     employee = Some (toEmployee bestMatch employeeData),
                                     confidence = Some (f_sub fl (Finite 1) bestDistance)\<rparr>)))))"

text \<open>
  \<open>recordAttendance\<close>. The inserted row is modelled by the columns below; of \<open>device_info\<close>
  only the \<open>metadata\<close> object is kept. \<open>profileUsername\<close> is the \<open>username\<close> the profiles
  query returns (if any), \<open>now\<close> the time of the call, \<open>insertError\<close> the error of the insert.
\<close>

datatype AttendanceStatus = Present | Late | Absent | Unauthorized

definition statusString :: "AttendanceStatus \<Rightarrow> string" where
  "statusString s =
     (case s of Present \<Rightarrow> ''present'' | Late \<Rightarrow> ''late''
      | Absent \<Rightarrow> ''absent'' | Unauthorized \<Rightarrow> ''unauthorized'')"

record InsertedRow =
  ins_user_id :: "string option"
  ins_timestamp :: "Date option"
  ins_status :: string
  ins_confidence_score :: "real option"
  ins_device_info :: "DeviceInfo option"

definition emptyMetadata :: Metadata where
  "emptyMetadata =
     \<lparr>name = None, employee_id = None, department = None, position = None,
      firebase_image_url = None, faceDescriptor = None\<rparr>"

definition recordAttendance :: "string \<Rightarrow> AttendanceStatus \<Rightarrow> real option \<Rightarrow> DeviceInfo option
    \<Rightarrow> Date \<Rightarrow> string option \<Rightarrow> string option \<Rightarrow> string + InsertedRow" where
  "recordAttendance userId status_arg confidence_arg deviceInfo now profileUsername insertError =
     (let normalizedStatus = (if status_arg = Unauthorized then Present else status_arg);
          userName =
            (if userId \<noteq> [] \<and> userId \<noteq> ''unknown''
             then (case profileUsername of
                     None \<Rightarrow> None
                   | Some u \<Rightarrow> if u = [] then None else Some u)
             else None);
          given = (case deviceInfo of None \<Rightarrow> None | Some di \<Rightarrow> metadata di);
          givenName = (case given of None \<Rightarrow> None | Some m \<Rightarrow> name m);
          fullDeviceInfo =
            \<lparr>metadata =
               Some ((case given of None \<Rightarrow> emptyMetadata | Some m \<Rightarrow> m)
                     \<lparr>name := Some (orElse userName (orElse givenName ''Unknown''))\<rparr>)\<rparr>
      in case insertError of
           Some msg \<Rightarrow> Inl (''Failed to record attendance: '' @ msg)
         | None \<Rightarrow>
             Inr \<lparr>ins_user_id = Some userId, ins_timestamp = Some now,
                  ins_status = statusString normalizedStatus,
                  ins_confidence_score = confidence_arg,
                  ins_device_info = Some fullDeviceInfo\<rparr>)"

section \<open>storeUnrecognizedFace\<close>

text \<open>
  \<open>storeUnrecognizedFace\<close>: the row it persists, if any. \<open>blobSize\<close> is the size of the
  blob fetched from the image data (\<open>None\<close>: the fetch threw, which the outer \<open>catch\<close>
  swallows); a failed upload falls back to the image data and still inserts; an insert
  error is logged and nothing is persisted.
\<close>

definition storeUnrecognizedFace :: "nat option \<Rightarrow> string option \<Rightarrow> InsertedRow option" where
  "storeUnrecognizedFace blobSize insertError =
     (case blobSize of
        None \<Rightarrow> None
      | Some n \<Rightarrow>
          if n = 0 then None
          else
            (case insertError of
               Some msg \<Rightarrow> None
             | None \<Rightarrow>
                 Some \<lparr>ins_user_id = None, ins_timestamp = None,
                       ins_status = ''unauthorized'', ins_confidence_score = None,
                       ins_device_info = Some \<lparr>metadata = None\<rparr>\<rparr>))"

section \<open>fetchAttendanceRecords\<close>

text \<open>
  The state of the hook \<open>useAttendanceCalendar\<close> that the calendar shows. The selected
  date and the daily detail list take no part in the day sets and are left out.
\<close>

record CalendarState =
  attendanceDays :: "Date list"
  lateAttendanceDays :: "Date list"
  absentDays :: "Date list"
  workingDays :: "Date list"

definition orEmpty :: "AttendanceRow list option \<Rightarrow> AttendanceRow list" where
  "orEmpty data = (case data of None \<Rightarrow> [] | Some rows \<Rightarrow> rows)"

text \<open>
  \<open>records.map(r => r.timestamp ? new Date(r.timestamp) : null).filter(d => d !== null)\<close>
\<close>

definition toDates :: "AttendanceRow list \<Rightarrow> Date list" where
  "toDates records = List.map_filter timestamp records"

text \<open>The status of every record in lower case (lines 55 to 59).\<close>

definition normalizeStatus :: "AttendanceRow list \<Rightarrow> AttendanceRow list" where
  "normalizeStatus allRecords = map (\<lambda>r. r\<lparr>status := toLowerCase (status r)\<rparr>) allRecords"

text \<open>
  What the present-day setter and the late-day setter are called with for a non-empty
  \<open>allRecords\<close> (lines 61 to 96).
\<close>

definition fetchedPresentDays :: "AttendanceRow list \<Rightarrow> Date list" where
  "fetchedPresentDays allRecords =
     (let presentRecords =
            filter (\<lambda>r. status r = ''present'' \<or> status r = ''unauthorized'')
              (normalizeStatus allRecords)
      in if presentRecords \<noteq> [] then toDates presentRecords else [])"

definition fetchedLateDays :: "AttendanceRow list \<Rightarrow> Date list" where
  "fetchedLateDays allRecords =
     (let lateRecords = filter (\<lambda>r. status r = ''late'') (normalizeStatus allRecords)
      in if lateRecords \<noteq> [] then toDates lateRecords else [])"

text \<open>
  \<open>fetchAttendanceRecords\<close>, given the answers of its two queries; the setters act on the
  state. The \<open>error\<close> fields of the answers are bound and never read. \<open>Inl\<close> is the
  rethrown exception.
\<close>

definition fetchAttendanceRecords :: "response \<Rightarrow> response \<Rightarrow> CalendarState
    \<Rightarrow> string + CalendarState" where
  "fetchAttendanceRecords byId byUserId st =
     (case byId of
        Rejected e \<Rightarrow> Inl e
      | Resolved recordsById errorById \<Rightarrow>
          (case byUserId of
             Rejected e \<Rightarrow> Inl e
           | Resolved recordsByUserId errorByUserId \<Rightarrow>
               (let allRecords = orEmpty recordsById @ orEmpty recordsByUserId
                in if allRecords = []
                   then Inr (st\<lparr>attendanceDays := [], lateAttendanceDays := []\<rparr>)
                   else Inr (st\<lparr>attendanceDays := fetchedPresentDays allRecords,
                               lateAttendanceDays := fetchedLateDays allRecords\<rparr>))))"

text \<open>
  \<open>loadAttendanceRecords\<close> of the hook: a thrown error becomes a toast, the state stays.
\<close>

definition loadAttendanceRecords :: "response \<Rightarrow> response \<Rightarrow> CalendarState
    \<Rightarrow> CalendarState \<times> string option" where
  "loadAttendanceRecords byId byUserId st =
     (case fetchAttendanceRecords byId byUserId st of
        Inl e \<Rightarrow> (st, Some ''Failed to load attendance records'')
      | Inr st' \<Rightarrow> (st', None))"




section \<open>useAttendanceCalendar\<close>

text \<open>The \<open>forEach\<close> over \<open>faceRecords\<close>, carrying \<open>(presentDates, lateDates)\<close>.\<close>

fun collectDates :: "int \<Rightarrow> AttendanceRow list \<Rightarrow> Date list \<times> Date list
    \<Rightarrow> Date list \<times> Date list" where
  "collectDates tz [] acc = acc"
| "collectDates tz (r # rest) (presentDates, lateDates) =
     (let recordDate = setHours0 tz (newDate (timestamp r));
          dateExists = (recordDate \<in> set presentDates \<or> recordDate \<in> set lateDates)
      in if \<not> dateExists
         then if status r = ''Present'' \<or> includes_str (toLowerCase (status r)) ''present''
              then collectDates tz rest (presentDates @ [recordDate], lateDates)
              else if status r = ''Late'' \<or> includes_str (toLowerCase (status r)) ''late''
              then collectDates tz rest (presentDates, lateDates @ [recordDate])
              else collectDates tz rest (presentDates, lateDates)
         else collectDates tz rest (presentDates, lateDates))"

text \<open>The updater passed to the setters: \<open>prev\<close> extended by the dates not yet in it.\<close>

fun mergeDates :: "int \<Rightarrow> Date list \<Rightarrow> Date list \<Rightarrow> Date list" where
  "mergeDates tz combined [] = combined"
| "mergeDates tz combined (date # rest) =
     (if \<not> isDateInArray tz date combined
      then mergeDates tz (combined @ [date]) rest
      else mergeDates tz combined rest)"

text \<open>
  The two guarded setter calls that merge the collected dates into the state
  (lines 100 to 123).
\<close>

definition mergeRecent :: "int \<Rightarrow> Date list \<times> Date list \<Rightarrow> CalendarState \<Rightarrow> CalendarState"
  where
  "mergeRecent tz dates st =
     (case dates of
        (presentDates, lateDates) \<Rightarrow>
          (let st1 =
                 (if presentDates \<noteq> []
                  then st\<lparr>attendanceDays := mergeDates tz (attendanceDays st) presentDates\<rparr>
                  else st)
           in if lateDates \<noteq> []
              then st1\<lparr>lateAttendanceDays :=
                         mergeDates tz (lateAttendanceDays st1) lateDates\<rparr>
              else st1))"

text \<open>
  The effect on \<open>recentAttendance\<close> (the live records). A \<open>null\<close> or empty
  \<open>selectedFaceId\<close> is falsy.
\<close>

definition processRecentAttendance :: "int \<Rightarrow> string option \<Rightarrow> AttendanceRow list
    \<Rightarrow> CalendarState \<Rightarrow> CalendarState" where
  "processRecentAttendance tz selectedFaceId recentAttendance st =
     (case selectedFaceId of
        None \<Rightarrow> st
      | Some faceId \<Rightarrow>
          if faceId = [] \<or> recentAttendance = [] then st
          else
            (let faceRecords =
                   filter (\<lambda>r. user_id r = Some faceId \<or> row_id r = faceId) recentAttendance
             in if faceRecords = [] then st
                else mergeRecent tz (collectDates tz faceRecords ([], [])) st))"

text \<open>The effect that calculates the absent days; \<open>today\<close> is \<open>new Date()\<close>.\<close>

definition calcAbsentDays :: "int \<Rightarrow> Date \<Rightarrow> CalendarState \<Rightarrow> CalendarState" where
  "calcAbsentDays tz today st =
     (if workingDays st \<noteq> [] \<and> (attendanceDays st \<noteq> [] \<or> lateAttendanceDays st \<noteq> [])
      then st\<lparr>absentDays :=
                filter (\<lambda>workDay.
                          if workDay > today then False
                          else \<not> isDateInArray tz workDay (attendanceDays st)
                               \<and> \<not> isDateInArray tz workDay (lateAttendanceDays st))
                  (workingDays st)\<rparr>
      else st)"

text \<open>
  The synchronous part of the effect on \<open>selectedFaceId\<close>. \<open>generated\<close> is the result of
  \<open>generateWorkingDays\<close> (attendanceUtils, not among the sources) for the current month.
\<close>

definition selectFace :: "string option \<Rightarrow> Date list \<Rightarrow> CalendarState \<Rightarrow> CalendarState" where
  "selectFace selectedFaceId generated st =
     (if selectedFaceId \<noteq> None \<and> selectedFaceId \<noteq> Some []
      then st\<lparr>workingDays := generated\<rparr>
      else st\<lparr>attendanceDays := [], lateAttendanceDays := [], absentDays := []\<rparr>)"

definition initialState :: CalendarState where
  "initialState =
     \<lparr>attendanceDays = [], lateAttendanceDays = [], absentDays = [], workingDays = []\<rparr>"

text \<open>
  The states the hook can return. Every rule is one update of the state: the setter
  calls of the effect on \<open>selectedFaceId\<close>, those of \<open>fetchAttendanceRecords\<close>, those of
  the effect on \<open>recentAttendance\<close>, and the setter call of the absent-day effect. The
  absent-day effect runs after the render in which a list has changed, so the state
  between a change of the lists and \<open>setAbsentDays\<close> is a state of its own. A month has
  working days, so \<open>generated\<close> is not empty.
\<close>

inductive reachable :: "int \<Rightarrow> CalendarState \<Rightarrow> bool" for tz :: int where
  r_init: "reachable tz initialState"
| r_select: "reachable tz st \<Longrightarrow> generated \<noteq> [] \<Longrightarrow>
     reachable tz (selectFace selectedFaceId generated st)"
| r_load: "reachable tz st \<Longrightarrow>
     reachable tz (fst (loadAttendanceRecords byId byUserId st))"
| r_recent: "reachable tz st \<Longrightarrow>
     reachable tz (processRecentAttendance tz selectedFaceId recentAttendance st)"
| r_absent: "reachable tz st \<Longrightarrow> reachable tz (calcAbsentDays tz today st)"

section \<open>The rows the matcher compares\<close>

text \<open>
  A row the loop compares with the probe: it has a stored descriptor string, the string
  decodes, and the decoded descriptor has the length of the probe. Every other row is
  passed over, or makes the body of the \<open>try\<close> throw and is skipped.
\<close>

definition comparable :: "(string \<Rightarrow> descriptor option) \<Rightarrow> descriptor \<Rightarrow> AttendanceRow \<Rightarrow> bool"
  where
  "comparable decode faceDesc r =
     (case storedDescriptor r of
        None \<Rightarrow> False
      | Some s \<Rightarrow>
          (case decode s of
             None \<Rightarrow> False
           | Some registeredDescriptor \<Rightarrow> length faceDesc = length registeredDescriptor))"

section \<open>The properties of the calendar state\<close>

text \<open>
  Every working day up to \<open>today\<close> is, as a calendar date, among the present, the late
  or the absent days.
\<close>

definition classifiedUpTo :: "int \<Rightarrow> Date \<Rightarrow> CalendarState \<Rightarrow> bool" where
  "classifiedUpTo tz today st =
     (\<forall>workDay\<in>set (workingDays st). workDay \<le> today \<longrightarrow>
        isDateInArray tz workDay (attendanceDays st) \<or>
        isDateInArray tz workDay (lateAttendanceDays st) \<or>
        isDateInArray tz workDay (absentDays st))"

text \<open>No absent day is, as a calendar date, a present or a late day.\<close>

definition absentApart :: "int \<Rightarrow> CalendarState \<Rightarrow> bool" where
  "absentApart tz st =
     (\<forall>d\<in>set (absentDays st).
        \<not> isDateInArray tz d (attendanceDays st) \<and>
        \<not> isDateInArray tz d (lateAttendanceDays st))"

text \<open>The three day lists are pairwise disjoint as sets of calendar dates.\<close>

definition pairwiseDisjoint :: "int \<Rightarrow> CalendarState \<Rightarrow> bool" where
  "pairwiseDisjoint tz st =
     (absentApart tz st \<and>
      (\<forall>d\<in>set (lateAttendanceDays st). \<not> isDateInArray tz d (attendanceDays st)))"




section \<open>Sample data\<close>

text \<open>
  A sample decoder, probe and registered rows. Every finite number the sample computes
  (0, 1/4, 1/2, 1 and 3/2) is a double and every operation on them is exact in double
  arithmetic, and an operation with a NaN operand gives NaN; no infinity occurs. So on
  the sample the operations of doubles are those of \<open>exOps\<close>.
\<close>

definition exLift :: "(real \<Rightarrow> real \<Rightarrow> real) \<Rightarrow> double \<Rightarrow> double \<Rightarrow> double" where
  "exLift f a b = (case (a, b) of (Finite x, Finite y) \<Rightarrow> Finite (f x y) | _ \<Rightarrow> NaN)"

definition exOps :: float_ops where
  "exOps =
     \<lparr>f_sub = exLift (\<lambda>x y. x - y), f_mul = exLift (\<lambda>x y. x * y),
      f_add = exLift (\<lambda>x y. x + y),
      f_sqrt = (\<lambda>a. case a of Finite x \<Rightarrow> Finite (sqrt x) | _ \<Rightarrow> NaN)\<rparr>"

definition exDecode :: "string \<Rightarrow> descriptor option" where
  "exDecode s =
     (if s = ''near'' then Some [Finite 0, Finite 0]
      else if s = ''same'' then Some [Finite 0, Finite (1 / 2)]
      else if s = ''far'' then Some [Finite 0, Finite (3 / 2)]
      else if s = ''short'' then Some [Finite 1]
      else if s = ''nan'' then Some [Finite 0, NaN]
      else None)"

definition exProbe :: descriptor where
  "exProbe = [Finite 0, Finite (1 / 2)]"

definition exRow :: "string \<Rightarrow> string \<Rightarrow> AttendanceRow" where
  "exRow u s =
     \<lparr>row_id = u, user_id = Some u, timestamp = None, status = ''registered'',
      device_info =
        Some \<lparr>metadata = Some (emptyMetadata\<lparr>name := Some u, faceDescriptor := Some s\<rparr>)\<rparr>\<rparr>"

definition exBare :: AttendanceRow where
  "exBare =
     \<lparr>row_id = ''b'', user_id = Some ''ub'', timestamp = None, status = ''registered'',
      device_info = Some \<lparr>metadata = None\<rparr>\<rparr>"


text \<open>Sample attendance rows of the user \<open>u1\<close>; one day is 86400000 ms.\<close>

definition exAttend :: "string \<Rightarrow> Date \<Rightarrow> string \<Rightarrow> AttendanceRow" where
  "exAttend i t s =
     \<lparr>row_id = i, user_id = Some ''u1'', timestamp = Some t, status = s, device_info = None\<rparr>"

text \<open>Two states of the hook: after selecting a face, and after its records were fetched.\<close>

definition exSelected :: CalendarState where
  "exSelected =
     \<lparr>attendanceDays = [], lateAttendanceDays = [], absentDays = [],
      workingDays = [86400000, 172800000]\<rparr>"

definition exLoaded :: CalendarState where
  "exLoaded =
     \<lparr>attendanceDays = [86401000], lateAttendanceDays = [86402000], absentDays = [172800000],
      workingDays = [86400000, 172800000]\<rparr>"

text \<open>
  The state after a live record of the second working day was merged into \<open>exLoaded\<close>,
  before the absent-day effect has run again.
\<close>

definition exMerged :: CalendarState where
  "exMerged =
     \<lparr>attendanceDays = [86401000, 172800000], lateAttendanceDays = [86402000],
      absentDays = [172800000], workingDays = [86400000, 172800000]\<rparr>"



section \<open>The matcher\<close>

lemma dless_NaN: "\<not> dless NaN b" "\<not> dless a NaN"
  by (cases b; simp) (cases a; simp)

lemma dless_irrefl: "\<not> dless a a"
  by (cases a) simp_all

lemma dless_asym: "dless a b \<Longrightarrow> \<not> dless b a"
  by (cases a; cases b) simp_all

lemma dless_trichotomy: "a \<noteq> NaN \<Longrightarrow> b \<noteq> NaN \<Longrightarrow> dless a b \<or> a = b \<or> dless b a"
  by (cases a; cases b) auto

lemma scanRows_append:
  "scanRows fl decode p (xs @ ys) best = scanRows fl decode p ys (scanRows fl decode p xs best)"
  by (induction xs arbitrary: best) (auto split: option.splits)

lemma scanRows_skip_all:
  "\<forall>r\<in>set rows. compareRow fl decode p r = None \<Longrightarrow> scanRows fl decode p rows best = best"
  by (induction rows arbitrary: best) (auto split: option.splits)

lemma scanRows_above:
  "\<forall>r\<in>set xs. \<forall>d'. compareRow fl decode p r = Some d' \<longrightarrow> dless d d' \<or> d' = NaN \<Longrightarrow>
   dless d bd \<Longrightarrow> dless d (snd (scanRows fl decode p xs (bm, bd)))"
proof (induction xs arbitrary: bm bd)
  case Nil
  then show ?case by simp
next
  case (Cons r xs)
  show ?case
  proof (cases "compareRow fl decode p r")
    case None
    with Cons show ?thesis by simp
  next
    case (Some d')
    show ?thesis
    proof (cases "dless d' bd")
      case True
      then have "d' \<noteq> NaN" using dless_NaN(1) by blast
      with Cons.prems(1) Some have "dless d d'" by simp
      with Cons.IH[of d' "Some r"] Cons.prems(1) Some True show ?thesis by simp
    next
      case False
      with Cons Some show ?thesis by simp
    qed
  qed
qed

lemma scanRows_keep:
  "\<forall>r\<in>set ys. \<forall>d'. compareRow fl decode p r = Some d' \<longrightarrow> \<not> dless d' bd \<Longrightarrow>
   scanRows fl decode p ys (bm, bd) = (bm, bd)"
  by (induction ys) (auto split: option.splits)

lemma compareRow_metadata:
  "compareRow fl decode p r = Some d \<Longrightarrow> \<exists>md. metadataOf r = Some md"
  by (auto simp: compareRow_def storedDescriptor_def split: option.splits)

lemma compareRow_comparable:
  "(compareRow fl decode p r = None) = (\<not> comparable decode p r)"
  by (simp add: compareRow_def comparable_def calculateDistance_def split: option.splits)

lemma scanRows_filter:
  "scanRows fl decode p (filter (comparable decode p) rows) best = scanRows fl decode p rows best"
proof (induction rows arbitrary: best)
  case Nil
  show ?case by simp
next
  case (Cons r rows)
  obtain bm bd where best: "best = (bm, bd)" by (cases best)
  show ?case
  proof (cases "comparable decode p r")
    case True
    then show ?thesis unfolding best by (simp add: Cons.IH split: option.splits)
  next
    case False
    then have "compareRow fl decode p r = None" by (simp add: compareRow_comparable)
    with False show ?thesis unfolding best by (simp add: Cons.IH)
  qed
qed

lemma scanRows_first_min:
  assumes a: "compareRow fl decode p a = Some d"
    and lt: "dless d bd"
    and before: "\<forall>r\<in>set xs. \<forall>d'. compareRow fl decode p r = Some d' \<longrightarrow> dless d d' \<or> d' = NaN"
    and after: "\<forall>r\<in>set ys. \<forall>d'. compareRow fl decode p r = Some d' \<longrightarrow> \<not> dless d' d"
  shows "scanRows fl decode p (xs @ a # ys) (bm, bd) = (Some a, d)"
proof -
  obtain bm' bd' where s: "scanRows fl decode p xs (bm, bd) = (bm', bd')"
    by (cases "scanRows fl decode p xs (bm, bd)")
  from scanRows_above[OF before lt, of bm] s have "dless d bd'" by simp
  then have "scanRows fl decode p (a # ys) (bm', bd') = scanRows fl decode p ys (Some a, d)"
    using a by simp
  also have "\<dots> = (Some a, d)" using after by (rule scanRows_keep)
  finally show ?thesis by (simp add: scanRows_append s)
qed

lemma scanRows_result:
  "scanRows fl decode p rows (bm, bd) = (bm', bd') \<Longrightarrow>
   (bm' = bm \<and> bd' = bd) \<or> (\<exists>r\<in>set rows. bm' = Some r \<and> compareRow fl decode p r = Some bd')"
proof (induction rows arbitrary: bm bd)
  case Nil
  then show ?case by simp
next
  case (Cons r rows)
  show ?case
  proof (cases "compareRow fl decode p r")
    case None
    with Cons.prems have "scanRows fl decode p rows (bm, bd) = (bm', bd')" by simp
    from Cons.IH[OF this] show ?thesis by auto
  next
    case (Some dist)
    show ?thesis
    proof (cases "dless dist bd")
      case True
      with Some Cons.prems have "scanRows fl decode p rows (Some r, dist) = (bm', bd')" by simp
      from Cons.IH[OF this] Some show ?thesis by auto
    next
      case False
      with Some Cons.prems have "scanRows fl decode p rows (bm, bd) = (bm', bd')" by simp
      from Cons.IH[OF this] show ?thesis by auto
    qed
  qed
qed

text \<open>What \<open>recognizeFace\<close> returns for a query that succeeded, from the result of the loop.\<close>

lemma recognizeFace_scan:
  "recognizeFace fl decode p (Resolved (Some rows) None) =
     (case scanRows fl decode p rows (None, threshold) of
        (None, bestDistance) \<Rightarrow> Inr notRecognized
      | (Some bestMatch, bestDistance) \<Rightarrow>
          (case metadataOf bestMatch of
             None \<Rightarrow> Inr notRecognized
           | Some employeeData \<Rightarrow>
               Inr \<lparr>recognized = True,
                    employee = Some (toEmployee bestMatch employeeData),
                    confidence = Some (f_sub fl (Finite 1) bestDistance)\<rparr>))"
  by (cases "rows = []") (simp_all add: recognizeFace_def)

lemma recognizeFace_rows:
  "scanRows fl decode p rows (None, threshold) = (Some w, d) \<Longrightarrow>
   metadataOf w = Some md \<Longrightarrow>
   recognizeFace fl decode p (Resolved (Some rows) None) =
     Inr \<lparr>recognized = True, employee = Some (toEmployee w md),
          confidence = Some (f_sub fl (Finite 1) d)\<rparr>"
  by (simp add: recognizeFace_scan)

lemma recognizeFace_none:
  "scanRows fl decode p rows (None, threshold) = (None, d) \<Longrightarrow>
   recognizeFace fl decode p (Resolved (Some rows) None) = Inr notRecognized"
  by (simp add: recognizeFace_scan)

lemma recognizeFace_filter:
  "recognizeFace fl decode p (Resolved (Some (filter (comparable decode p) rows)) None) =
   recognizeFace fl decode p (Resolved (Some rows) None)"
  by (simp add: recognizeFace_scan scanRows_filter)

lemma recognizeFace_first_min:
  assumes a: "compareRow fl decode p a = Some d"
    and lt: "dless d threshold"
    and before: "\<forall>r\<in>set xs. \<forall>d'. compareRow fl decode p r = Some d' \<longrightarrow> dless d d' \<or> d' = NaN"
    and after: "\<forall>r\<in>set ys. \<forall>d'. compareRow fl decode p r = Some d' \<longrightarrow> \<not> dless d' d"
  shows "\<exists>md. metadataOf a = Some md \<and>
     recognizeFace fl decode p (Resolved (Some (xs @ a # ys)) None) =
       Inr \<lparr>recognized = True, employee = Some (toEmployee a md),
            confidence = Some (f_sub fl (Finite 1) d)\<rparr>"
proof -
  from compareRow_metadata[OF a] obtain md where md: "metadataOf a = Some md" ..
  have "scanRows fl decode p (xs @ a # ys) (None, threshold) = (Some a, d)"
    using a lt before after by (rule scanRows_first_min)
  then show ?thesis using md by (simp add: recognizeFace_rows)
qed

text \<open>The sample rows against the sample probe.\<close>

lemma ex_md:
  "metadataOf (exRow u s) = Some (emptyMetadata\<lparr>name := Some u, faceDescriptor := Some s\<rparr>)"
  by (simp add: metadataOf_def exRow_def)

lemma ex_near: "compareRow exOps exDecode exProbe (exRow u ''near'') = Some (Finite (1 / 2))"
  by (simp add: compareRow_def storedDescriptor_def ex_md emptyMetadata_def exDecode_def
      exProbe_def calculateDistance_def exOps_def exLift_def real_sqrt_divide)


lemma ex_far: "compareRow exOps exDecode exProbe (exRow u ''far'') = Some (Finite 1)"
  by (simp add: compareRow_def storedDescriptor_def ex_md emptyMetadata_def exDecode_def
      exProbe_def calculateDistance_def exOps_def exLift_def)

lemma ex_nan: "compareRow exOps exDecode exProbe (exRow u ''nan'') = Some NaN"
  by (simp add: compareRow_def storedDescriptor_def ex_md emptyMetadata_def exDecode_def
      exProbe_def calculateDistance_def exOps_def exLift_def)

lemma ex_short: "compareRow exOps exDecode exProbe (exRow u ''short'') = None"
  by (simp add: compareRow_def storedDescriptor_def ex_md emptyMetadata_def exDecode_def
      exProbe_def calculateDistance_def)


lemma ex_sub: "f_sub exOps (Finite a) (Finite b) = Finite (a - b)"
  by (simp add: exOps_def exLift_def)

lemma threshold_value: "threshold = Finite (5404319552844595 / 9007199254740992)"
  by (simp add: threshold_def)

text \<open>
  Claim C8. Distances are the doubles \<open>calculateDistance\<close> computes and \<open>dless\<close> is their
  comparison. When several rows reach the same minimum distance below the threshold, the
  one that comes first in the iteration order is the match: a row \<open>a\<close> whose distance
  \<open>d\<close> is below the threshold, while every compared row before it is strictly farther
  (or has the distance NaN) and no compared row after it is strictly closer (so later
  rows at the same distance are allowed), is the \<open>bestMatch\<close> the loop ends with, and
  \<open>recognizeFace\<close> returns its employee.
\<close>

theorem tie_break_first_wins:
  assumes "compareRow fl decode p a = Some d" and "dless d threshold"
    and "\<forall>r\<in>set xs. \<forall>d'. compareRow fl decode p r = Some d' \<longrightarrow> dless d d' \<or> d' = NaN"
    and "\<forall>r\<in>set ys. \<forall>d'. compareRow fl decode p r = Some d' \<longrightarrow> \<not> dless d' d"
  shows "scanRows fl decode p (xs @ a # ys) (None, threshold) = (Some a, d) \<and>
         (\<exists>md. metadataOf a = Some md \<and>
            recognizeFace fl decode p (Resolved (Some (xs @ a # ys)) None) =
              Inr \<lparr>recognized = True, employee = Some (toEmployee a md),
                   confidence = Some (f_sub fl (Finite 1) d)\<rparr>)"
  using assms by (simp add: scanRows_first_min recognizeFace_first_min)

theorem tie_break_first_wins_witness:
  "scanRows exOps exDecode exProbe
     [exRow ''u0'' ''short'', exRow ''u5'' ''nan'', exRow ''u3'' ''far'', exRow ''u1'' ''near'',
      exRow ''u2'' ''near'']
     (None, threshold) = (Some (exRow ''u1'' ''near''), Finite (1 / 2)) \<and>
   recognizeFace exOps exDecode exProbe
     (Resolved (Some [exRow ''u0'' ''short'', exRow ''u5'' ''nan'', exRow ''u3'' ''far'',
                      exRow ''u1'' ''near'', exRow ''u2'' ''near'']) None) =
     Inr \<lparr>recognized = True,
          employee = Some (toEmployee (exRow ''u1'' ''near'')
                       (emptyMetadata\<lparr>name := Some ''u1'', faceDescriptor := Some ''near''\<rparr>)),
          confidence = Some (Finite (1 / 2))\<rparr>"
  using tie_break_first_wins[of exOps exDecode exProbe "exRow ''u1'' ''near''" "Finite (1 / 2)"
      "[exRow ''u0'' ''short'', exRow ''u5'' ''nan'', exRow ''u3'' ''far'']"
      "[exRow ''u2'' ''near'']"]
  by (simp add: ex_near ex_short ex_far ex_nan threshold_value ex_md ex_sub)


lemma recognizeFace_min:
  assumes w0: "w0 \<in> set rows" and c: "compareRow fl decode p w0 = Some d"
    and lt: "dless d threshold"
    and mn: "\<forall>r\<in>set rows. \<forall>d'. compareRow fl decode p r = Some d' \<longrightarrow> \<not> dless d' d"
  shows "\<exists>xs w ys md. rows = xs @ w # ys \<and>
           (\<forall>r\<in>set xs. compareRow fl decode p r \<noteq> Some d) \<and>
           compareRow fl decode p w = Some d \<and> metadataOf w = Some md \<and>
           scanRows fl decode p rows (None, threshold) = (Some w, d) \<and>
           recognizeFace fl decode p (Resolved (Some rows) None) =
             Inr \<lparr>recognized = True, employee = Some (toEmployee w md),
                  confidence = Some (f_sub fl (Finite 1) d)\<rparr>"
proof -
  from lt have dn: "d \<noteq> NaN" using dless_NaN(1) by blast
  from w0 c have "\<exists>r\<in>set rows. compareRow fl decode p r = Some d" by blast
  from split_list_first_prop[OF this]
  obtain xs w ys where rows: "rows = xs @ w # ys" and cw: "compareRow fl decode p w = Some d"
    and first: "\<forall>r\<in>set xs. compareRow fl decode p r \<noteq> Some d"
    by blast
  have before: "\<forall>r\<in>set xs. \<forall>d'. compareRow fl decode p r = Some d' \<longrightarrow> dless d d' \<or> d' = NaN"
  proof (intro ballI allI impI)
    fix r d' assume r: "r \<in> set xs" and cr: "compareRow fl decode p r = Some d'"
    with mn rows have "\<not> dless d' d" by auto
    moreover from first r cr have "d' \<noteq> d" by auto
    ultimately show "dless d d' \<or> d' = NaN" using dless_trichotomy[OF dn, of d'] by blast
  qed
  have after: "\<forall>r\<in>set ys. \<forall>d'. compareRow fl decode p r = Some d' \<longrightarrow> \<not> dless d' d"
    using mn rows by auto
  have scan: "scanRows fl decode p (xs @ w # ys) (None, threshold) = (Some w, d)"
    using cw lt before after by (rule scanRows_first_min)
  from compareRow_metadata[OF cw] obtain md where md: "metadataOf w = Some md" ..
  from recognizeFace_rows[OF scan md]
  have "recognizeFace fl decode p (Resolved (Some (xs @ w # ys)) None) =
       Inr \<lparr>recognized = True, employee = Some (toEmployee w md),
            confidence = Some (f_sub fl (Finite 1) d)\<rparr>" .
  with rows first cw md scan show ?thesis by blast
qed





text \<open>
  Claim C7. A query that succeeds never makes \<open>recognizeFace\<close> throw. For no rows at all,
  and when every row is skipped (no stored descriptor, a descriptor that does not decode,
  or one of another length than the probe), the result is \<open>recognized = false\<close>. A
  skipped row does not end the pass: the result for any rows is the result for the rows
  that are compared, the skipped ones taken out; and it is always a value.
\<close>

theorem no_match_is_not_an_error:
  "recognizeFace fl decode p (Resolved (Some []) None) = Inr notRecognized \<and>
   recognizeFace fl decode p (Resolved None None) = Inr notRecognized \<and>
   ((\<forall>r\<in>set rows. \<not> comparable decode p r)
      \<longrightarrow> recognizeFace fl decode p (Resolved (Some rows) None) = Inr notRecognized) \<and>
   recognizeFace fl decode p (Resolved (Some rows) None) =
     recognizeFace fl decode p (Resolved (Some (filter (comparable decode p) rows)) None) \<and>
   (\<exists>res. recognizeFace fl decode p (Resolved (Some rows) None) = Inr res)"
proof (intro conjI impI)
  show "recognizeFace fl decode p (Resolved (Some []) None) = Inr notRecognized"
    by (simp add: recognizeFace_def)
  show "recognizeFace fl decode p (Resolved None None) = Inr notRecognized"
    by (simp add: recognizeFace_def)
  show "recognizeFace fl decode p (Resolved (Some rows) None) =
     recognizeFace fl decode p (Resolved (Some (filter (comparable decode p) rows)) None)"
    by (simp add: recognizeFace_filter)
  show "\<exists>res. recognizeFace fl decode p (Resolved (Some rows) None) = Inr res"
    by (simp add: recognizeFace_scan split: prod.splits option.splits)
next
  assume "\<forall>r\<in>set rows. \<not> comparable decode p r"
  then have "\<forall>r\<in>set rows. compareRow fl decode p r = None"
    by (simp add: compareRow_comparable)
  then have "scanRows fl decode p rows (None, threshold) = (None, threshold)"
    by (rule scanRows_skip_all)
  then show "recognizeFace fl decode p (Resolved (Some rows) None) = Inr notRecognized"
    by (rule recognizeFace_none)
qed

lemma ex_comparable:
  "comparable exDecode exProbe (exRow u ''near'')"
  "\<not> comparable exDecode exProbe (exRow u ''short'')"
  "\<not> comparable exDecode exProbe (exRow u ''garbled'')"
  by (simp_all add: comparable_def storedDescriptor_def ex_md emptyMetadata_def exDecode_def
      exProbe_def)

theorem no_match_is_not_an_error_witness:
  "recognizeFace exOps exDecode exProbe
     (Resolved (Some [exRow ''u0'' ''short'', exRow ''u4'' ''garbled'']) None) =
     Inr notRecognized \<and>
   recognizeFace exOps exDecode exProbe
     (Resolved (Some [exRow ''u4'' ''garbled'', exRow ''u1'' ''near'', exRow ''u0'' ''short''])
        None) =
     recognizeFace exOps exDecode exProbe (Resolved (Some [exRow ''u1'' ''near'']) None) \<and>
   recognizeFace exOps exDecode exProbe (Resolved (Some [exRow ''u1'' ''near'']) None) =
     Inr \<lparr>recognized = True,
          employee = Some (toEmployee (exRow ''u1'' ''near'')
                       (emptyMetadata\<lparr>name := Some ''u1'', faceDescriptor := Some ''near''\<rparr>)),
          confidence = Some (Finite (1 / 2))\<rparr>"
proof -
  have h: "\<forall>r\<in>set [exRow ''u0'' ''short'', exRow ''u4'' ''garbled''].
       \<not> comparable exDecode exProbe r"
    by (simp add: ex_comparable)
  with no_match_is_not_an_error[of exOps exDecode exProbe
      "[exRow ''u0'' ''short'', exRow ''u4'' ''garbled'']"]
  have 1: "recognizeFace exOps exDecode exProbe
     (Resolved (Some [exRow ''u0'' ''short'', exRow ''u4'' ''garbled'']) None) =
     Inr notRecognized"
    by blast
  from no_match_is_not_an_error[of exOps exDecode exProbe
      "[exRow ''u4'' ''garbled'', exRow ''u1'' ''near'', exRow ''u0'' ''short'']"]
  have 2: "recognizeFace exOps exDecode exProbe
     (Resolved (Some [exRow ''u4'' ''garbled'', exRow ''u1'' ''near'', exRow ''u0'' ''short''])
        None) =
     recognizeFace exOps exDecode exProbe (Resolved (Some [exRow ''u1'' ''near'']) None)"
    by (simp add: ex_comparable)
  have 3: "recognizeFace exOps exDecode exProbe (Resolved (Some [exRow ''u1'' ''near'']) None) =
     Inr \<lparr>recognized = True,
          employee = Some (toEmployee (exRow ''u1'' ''near'')
                       (emptyMetadata\<lparr>name := Some ''u1'', faceDescriptor := Some ''near''\<rparr>)),
          confidence = Some (Finite (1 / 2))\<rparr>"
    by (simp add: recognizeFace_scan ex_near threshold_value ex_md ex_sub)
  from 1 2 3 show ?thesis by blast
qed

text \<open>
  Claim C10 fails: there is no probe and row set whose closest compared row is below the
  threshold and has no metadata object.
\<close>

theorem no_metadata_below_threshold_counterexample:
  "\<not> (\<exists>fl decode p rows w d.
        w \<in> set rows \<and> compareRow fl decode p w = Some d \<and> dless d threshold \<and>
        (\<forall>r\<in>set rows. \<forall>d'. compareRow fl decode p r = Some d' \<longrightarrow> \<not> dless d' d) \<and>
        metadataOf w = None \<and>
        recognizeFace fl decode p (Resolved (Some rows) None) = Inr notRecognized)"
  by (auto dest: compareRow_metadata)

text \<open>
  Claim C10, amended. A row without a metadata object is skipped by the loop and has no
  distance; the best match the loop ends with always has a metadata object, so the guard
  of lines 97 to 100 is never taken; and whenever the closest compared row has a distance
  strictly below the threshold, \<open>recognizeFace\<close> returns \<open>recognized = true\<close>.
\<close>

theorem metadata_guard_never_taken:
  "(metadataOf r = None \<longrightarrow> compareRow fl decode p r = None) \<and>
   (scanRows fl decode p rows (None, threshold) = (Some b, bd) \<longrightarrow> metadataOf b \<noteq> None) \<and>
   (w \<in> set rows \<and> compareRow fl decode p w = Some d \<and> dless d threshold \<and>
      (\<forall>r\<in>set rows. \<forall>d'. compareRow fl decode p r = Some d' \<longrightarrow> \<not> dless d' d)
    \<longrightarrow> metadataOf w \<noteq> None \<and>
        (\<exists>res. recognizeFace fl decode p (Resolved (Some rows) None) = Inr res \<and>
               recognized res))"
proof (intro conjI impI)
  assume "metadataOf r = None"
  then show "compareRow fl decode p r = None"
    by (simp add: compareRow_def storedDescriptor_def)
next
  assume "scanRows fl decode p rows (None, threshold) = (Some b, bd)"
  from scanRows_result[OF this] show "metadataOf b \<noteq> None"
    by (auto dest: compareRow_metadata)
next
  assume h: "w \<in> set rows \<and> compareRow fl decode p w = Some d \<and> dless d threshold \<and>
      (\<forall>r\<in>set rows. \<forall>d'. compareRow fl decode p r = Some d' \<longrightarrow> \<not> dless d' d)"
  then show "metadataOf w \<noteq> None" by (auto dest: compareRow_metadata)
  from h recognizeFace_min[of w rows fl decode p d]
  show "\<exists>res. recognizeFace fl decode p (Resolved (Some rows) None) = Inr res \<and> recognized res"
    by auto
qed

theorem metadata_guard_never_taken_witness:
  "metadataOf exBare = None \<and> compareRow exOps exDecode exProbe exBare = None \<and>
   scanRows exOps exDecode exProbe [exBare, exRow ''u1'' ''near''] (None, threshold) =
     (Some (exRow ''u1'' ''near''), Finite (1 / 2)) \<and>
   metadataOf (exRow ''u1'' ''near'') \<noteq> None \<and>
   (\<exists>res. recognizeFace exOps exDecode exProbe
            (Resolved (Some [exBare, exRow ''u1'' ''near'']) None) = Inr res \<and> recognized res)"
proof -
  have b: "metadataOf exBare = None" by (simp add: metadataOf_def exBare_def)
  with metadata_guard_never_taken[of exBare exOps exDecode exProbe]
  have c: "compareRow exOps exDecode exProbe exBare = None" by blast
  have s: "scanRows exOps exDecode exProbe [exBare, exRow ''u1'' ''near''] (None, threshold) =
     (Some (exRow ''u1'' ''near''), Finite (1 / 2))"
    by (simp add: c ex_near threshold_value)
  have "exRow ''u1'' ''near'' \<in> set [exBare, exRow ''u1'' ''near''] \<and>
      compareRow exOps exDecode exProbe (exRow ''u1'' ''near'') = Some (Finite (1 / 2)) \<and>
      dless (Finite (1 / 2)) threshold \<and>
      (\<forall>r\<in>set [exBare, exRow ''u1'' ''near'']. \<forall>d'.
          compareRow exOps exDecode exProbe r = Some d' \<longrightarrow> \<not> dless d' (Finite (1 / 2)))"
    by (simp add: ex_near c threshold_value)
  with s metadata_guard_never_taken[of _ exOps exDecode exProbe "[exBare, exRow ''u1'' ''near'']"
      "exRow ''u1'' ''near''" "Finite (1 / 2)" "exRow ''u1'' ''near''" "Finite (1 / 2)"]
  have "metadataOf (exRow ''u1'' ''near'') \<noteq> None \<and>
   (\<exists>res. recognizeFace exOps exDecode exProbe
            (Resolved (Some [exBare, exRow ''u1'' ''near'']) None) = Inr res \<and> recognized res)"
    by blast
  with b c s show ?thesis by simp
qed

section \<open>The calendar\<close>

text \<open>
  Claim C5, at a fetch that fails: when both queries resolve with an error object and no
  data, \<open>fetchAttendanceRecords\<close> returns normally and has emptied the present and the
  late days, and \<open>loadAttendanceRecords\<close> shows no toast.
\<close>

theorem fetch_error_clears_days:
  "fetchAttendanceRecords (Resolved None (Some e1)) (Resolved None (Some e2)) st =
     Inr (st\<lparr>attendanceDays := [], lateAttendanceDays := []\<rparr>) \<and>
   loadAttendanceRecords (Resolved None (Some e1)) (Resolved None (Some e2)) st =
     (st\<lparr>attendanceDays := [], lateAttendanceDays := []\<rparr>, None)"
  by (simp add: fetchAttendanceRecords_def loadAttendanceRecords_def orEmpty_def)



lemma mergeRecent_nothing: "mergeRecent tz ([], []) st = st"
  by (simp add: mergeRecent_def)

lemma processRecent_Some:
  "processRecentAttendance tz (Some faceId) recent st =
     (if faceId = [] then st
      else mergeRecent tz
             (collectDates tz (filter (\<lambda>r. user_id r = Some faceId \<or> row_id r = faceId) recent)
                ([], [])) st)"
  by (simp add: processRecentAttendance_def Let_def mergeRecent_nothing)






text \<open>A query that rejects is rethrown: the hook shows a toast and keeps the state.\<close>

lemma fetch_rejected_keeps_days:
  "loadAttendanceRecords (Rejected e) byUserId st = (st, Some ''Failed to load attendance records'')"
  by (simp add: fetchAttendanceRecords_def loadAttendanceRecords_def)

section \<open>The write paths\<close>

text \<open>
  Claim C6 fails on the write path \<open>storeUnrecognizedFace\<close>: the row it persists has the
  status "unauthorized", not the status "present" of a present event.
\<close>

theorem unauthorized_status_per_write_path_counterexample:
  "map_option ins_status (storeUnrecognizedFace (Some 1) None) = Some ''unauthorized'' \<and>
   map_sum id ins_status (recordAttendance ''u1'' Present None None 0 None None) = Inr ''present''"
  by (simp add: storeUnrecognizedFace_def recordAttendance_def statusString_def Let_def)

text \<open>
  Claim C6, amended. \<open>recordAttendance\<close> stores an unauthorized attempt exactly as it stores
  a present event with the same arguments: status "present" and the caller's \<open>userId\<close>
  as \<open>user_id\<close>. \<open>storeUnrecognizedFace\<close> stores status "unauthorized" and no \<open>user_id\<close>.
\<close>

theorem unauthorized_write_paths:
  "recordAttendance userId Unauthorized c di now pu err =
     recordAttendance userId Present c di now pu err \<and>
   (recordAttendance userId Unauthorized c di now pu None = Inr row \<longrightarrow>
      ins_status row = ''present'' \<and> ins_user_id row = Some userId) \<and>
   (storeUnrecognizedFace blobSize insertError = Some row' \<longrightarrow>
      ins_status row' = ''unauthorized'' \<and> ins_user_id row' = None)"
proof (intro conjI impI)
  show "recordAttendance userId Unauthorized c di now pu err =
     recordAttendance userId Present c di now pu err"
    by (simp add: recordAttendance_def)
next
  assume a: "recordAttendance userId Unauthorized c di now pu None = Inr row"
  have "recordAttendance userId Unauthorized c di now pu None =
      Inr \<lparr>ins_user_id = Some userId, ins_timestamp = Some now, ins_status = ''present'',
           ins_confidence_score = c,
           ins_device_info = ins_device_info (projr (recordAttendance userId Present c di now pu None))\<rparr>"
    by (simp add: recordAttendance_def statusString_def Let_def)
  with a have row: "row = \<lparr>ins_user_id = Some userId, ins_timestamp = Some now, ins_status = ''present'',
           ins_confidence_score = c,
           ins_device_info = ins_device_info (projr (recordAttendance userId Present c di now pu None))\<rparr>"
    by simp
  show "ins_status row = ''present''" by (simp add: row)
  show "ins_user_id row = Some userId" by (simp add: row)
next
  assume b: "storeUnrecognizedFace blobSize insertError = Some row'"
  then have row': "row' = \<lparr>ins_user_id = None, ins_timestamp = None,
                       ins_status = ''unauthorized'', ins_confidence_score = None,
                       ins_device_info = Some \<lparr>metadata = None\<rparr>\<rparr>"
    by (simp add: storeUnrecognizedFace_def split: option.splits if_splits)
  show "ins_status row' = ''unauthorized''" by (simp add: row')
  show "ins_user_id row' = None" by (simp add: row')
qed

theorem unauthorized_write_paths_witness:
  "(\<exists>row. recordAttendance ''u1'' Unauthorized None None 0 None None = Inr row \<and>
      ins_status row = ''present'' \<and> ins_user_id row = Some ''u1'') \<and>
   (\<exists>row'. storeUnrecognizedFace (Some 1) None = Some row' \<and>
      ins_status row' = ''unauthorized'' \<and> ins_user_id row' = None)"
proof -
  obtain row where r: "recordAttendance ''u1'' Unauthorized None None 0 None None = Inr row"
    by (simp add: recordAttendance_def Let_def)
  obtain row' where r': "storeUnrecognizedFace (Some 1) None = Some row'"
    by (simp add: storeUnrecognizedFace_def)
  from r r' unauthorized_write_paths[of "''u1''" None None 0 None None row "Some 1" None row']
  show ?thesis by blast
qed

section \<open>The invariant of the calendar state\<close>


lemma fetched_Nil: "fetchedPresentDays [] = []" "fetchedLateDays [] = []"
  by (simp_all add: fetchedPresentDays_def fetchedLateDays_def normalizeStatus_def)

lemma fetch_Resolved:
  "fetchAttendanceRecords (Resolved a ea) (Resolved b eb) st =
     Inr (st\<lparr>attendanceDays := fetchedPresentDays (orEmpty a @ orEmpty b),
             lateAttendanceDays := fetchedLateDays (orEmpty a @ orEmpty b)\<rparr>)"
  by (cases "orEmpty a @ orEmpty b = []")
     (simp_all add: fetchAttendanceRecords_def fetched_Nil Let_def del: append_is_Nil_conv)

lemma fetch_Rejected:
  "fetchAttendanceRecords (Rejected e) byUserId st = Inl e"
  "fetchAttendanceRecords (Resolved a ea) (Rejected e) st = Inl e"
  by (simp_all add: fetchAttendanceRecords_def)

lemma fetch_frame:
  assumes "fetchAttendanceRecords byId byUserId st = Inr st'"
  shows "workingDays st' = workingDays st \<and> absentDays st' = absentDays st"
  using assms by (cases byId; cases byUserId) (auto simp: fetch_Resolved fetch_Rejected)

lemma load_frame:
  "workingDays (fst (loadAttendanceRecords byId byUserId st)) = workingDays st \<and>
   absentDays (fst (loadAttendanceRecords byId byUserId st)) = absentDays st"
proof (cases "fetchAttendanceRecords byId byUserId st")
  case (Inl e)
  then show ?thesis by (simp add: loadAttendanceRecords_def)
next
  case (Inr st')
  with fetch_frame[OF Inr] show ?thesis by (simp add: loadAttendanceRecords_def)
qed

lemma mergeRecent_frame:
  "workingDays (mergeRecent tz dates st) = workingDays st \<and>
   absentDays (mergeRecent tz dates st) = absentDays st"
  by (cases dates) (simp add: mergeRecent_def Let_def)

lemma processRecent_frame:
  "workingDays (processRecentAttendance tz sel recent st) = workingDays st \<and>
   absentDays (processRecentAttendance tz sel recent st) = absentDays st"
proof (cases sel)
  case None
  then show ?thesis by (simp add: processRecentAttendance_def)
next
  case (Some faceId)
  show ?thesis unfolding Some processRecent_Some by (simp add: mergeRecent_frame)
qed

lemma isDateInArray_Nil: "\<not> isDateInArray tz d []"
  by (simp add: isDateInArray_def)

lemma calcAbsent_workingDays: "workingDays (calcAbsentDays tz today x) = workingDays x"
  by (simp add: calcAbsentDays_def)

lemma calcAbsent_keeps:
  assumes "workingDays x = [] \<longrightarrow> absentDays x = []"
  shows "(workingDays (calcAbsentDays tz today x) = [] \<longrightarrow>
            absentDays (calcAbsentDays tz today x) = []) \<and>
         absentApart tz (calcAbsentDays tz today x)"
proof (cases "workingDays x \<noteq> [] \<and> (attendanceDays x \<noteq> [] \<or> lateAttendanceDays x \<noteq> [])")
  case True
  then show ?thesis by (simp add: calcAbsentDays_def absentApart_def)
next
  case False
  then have e: "calcAbsentDays tz today x = x" unfolding calcAbsentDays_def by (rule if_not_P)
  from False assms have "absentDays x = [] \<or> (attendanceDays x = [] \<and> lateAttendanceDays x = [])"
    by blast
  then have "absentApart tz x" by (auto simp: absentApart_def isDateInArray_Nil)
  with assms e show ?thesis by simp
qed

lemma reachable_inv:
  "reachable tz st \<Longrightarrow> workingDays st = [] \<longrightarrow> absentDays st = []"
proof (induction rule: reachable.induct)
  case r_init
  show ?case by (simp add: initialState_def)
next
  case (r_select st generated selectedFaceId)
  then show ?case by (simp add: selectFace_def)
next
  case (r_load st byId byUserId)
  then show ?case by (simp add: load_frame)
next
  case (r_recent st selectedFaceId recentAttendance)
  then show ?case by (simp add: processRecent_frame)
next
  case (r_absent st today)
  from calcAbsent_keeps[OF r_absent.IH] show ?case by blast
qed

lemma isDateInArray_self: "d \<in> set ds \<Longrightarrow> isDateInArray tz d ds"
  by (auto simp: isDateInArray_def list_ex_iff)

lemma calcAbsent_classifies:
  assumes "workingDays st \<noteq> []" and "attendanceDays st \<noteq> [] \<or> lateAttendanceDays st \<noteq> []"
  shows "classifiedUpTo tz today (calcAbsentDays tz today st)"
proof -
  let ?absent = "filter (\<lambda>workDay.
                          if workDay > today then False
                          else \<not> isDateInArray tz workDay (attendanceDays st)
                               \<and> \<not> isDateInArray tz workDay (lateAttendanceDays st))
                  (workingDays st)"
  from assms have e: "calcAbsentDays tz today st = st\<lparr>absentDays := ?absent\<rparr>"
    by (simp add: calcAbsentDays_def)
  have "isDateInArray tz w (attendanceDays st) \<or> isDateInArray tz w (lateAttendanceDays st) \<or>
        isDateInArray tz w ?absent"
    if w: "w \<in> set (workingDays st)" and le: "w \<le> today" for w
  proof (cases "isDateInArray tz w (attendanceDays st) \<or> isDateInArray tz w (lateAttendanceDays st)")
    case True
    then show ?thesis by blast
  next
    case False
    with w le have "w \<in> set ?absent" by simp
    then show ?thesis by (blast intro: isDateInArray_self)
  qed
  then show ?thesis unfolding e classifiedUpTo_def by simp
qed

lemma calcAbsent_skipped:
  "attendanceDays st = [] \<and> lateAttendanceDays st = [] \<Longrightarrow> calcAbsentDays tz today st = st"
  by (simp add: calcAbsentDays_def)

text \<open>
  Claim C3, amended. For every reachable state, the state the absent-day effect leaves
  when it runs on it at time \<open>today\<close> has no absent day that is, as a calendar date, a
  present or a late day; if there are working days and at least one present or late
  day, every working day up to \<open>today\<close> is then among the present, late or absent days;
  and if there is neither a present nor a late day, the effect leaves the state as it
  was.
\<close>

theorem calendar_invariant:
  assumes "reachable tz st"
  shows "absentApart tz (calcAbsentDays tz today st) \<and>
         (workingDays st \<noteq> [] \<and> (attendanceDays st \<noteq> [] \<or> lateAttendanceDays st \<noteq> [])
            \<longrightarrow> classifiedUpTo tz today (calcAbsentDays tz today st)) \<and>
         (attendanceDays st = [] \<and> lateAttendanceDays st = []
            \<longrightarrow> calcAbsentDays tz today st = st)"
proof -
  from calcAbsent_keeps[OF reachable_inv[OF assms]]
  have "absentApart tz (calcAbsentDays tz today st)" by blast
  then show ?thesis by (simp add: calcAbsent_classifies calcAbsent_skipped)
qed

lemma exSelected_reachable: "reachable 0 exSelected"
proof -
  have "reachable 0 (selectFace (Some ''u1'') [86400000, 172800000] initialState)"
    by (rule r_select[OF r_init]) simp
  moreover have "selectFace (Some ''u1'') [86400000, 172800000] initialState = exSelected"
    by (simp add: selectFace_def initialState_def exSelected_def)
  ultimately show ?thesis by simp
qed

lemma ex_dates:
  "setHours0 0 86400000 = 86400000" "setHours0 0 172800000 = 172800000"
  "setHours0 0 86401000 = 86400000" "setHours0 0 86402000 = 86400000"
  "setHours0 0 172801000 = 172800000"
  by (simp_all add: setHours0_def msPerDay_def)

lemma exLoaded_reachable: "reachable 0 exLoaded"
proof -
  let ?byId = "Resolved (Some []) None"
  let ?byUserId = "Resolved (Some [exAttend ''a1'' 86401000 ''present'',
                                    exAttend ''a2'' 86402000 ''late'']) None"
  have "reachable 0 (calcAbsentDays 0 172800000
          (fst (loadAttendanceRecords ?byId ?byUserId exSelected)))"
    by (rule r_absent[OF r_load[OF exSelected_reachable]])
  moreover have "toLowerCase ''present'' = ''present''" "toLowerCase ''late'' = ''late''"
    by code_simp+
  then have "fst (loadAttendanceRecords ?byId ?byUserId exSelected) =
      exSelected\<lparr>attendanceDays := [86401000], lateAttendanceDays := [86402000]\<rparr>"
    by (simp add: loadAttendanceRecords_def fetch_Resolved orEmpty_def fetchedPresentDays_def
        fetchedLateDays_def normalizeStatus_def exAttend_def toDates_def)
  moreover have "calcAbsentDays 0 172800000
      (exSelected\<lparr>attendanceDays := [86401000], lateAttendanceDays := [86402000]\<rparr>) = exLoaded"
    by (simp add: calcAbsentDays_def exSelected_def exLoaded_def isDateInArray_def ex_dates)
  ultimately show ?thesis by simp
qed

lemma exMerged_reachable: "reachable 0 exMerged"
proof -
  have "reachable 0 (processRecentAttendance 0 (Some ''u1'')
          [exAttend ''a3'' 172801000 ''present''] exLoaded)"
    by (rule r_recent[OF exLoaded_reachable])
  moreover have "toLowerCase ''present'' = ''present''"
    by code_simp
  then have "processRecentAttendance 0 (Some ''u1'') [exAttend ''a3'' 172801000 ''present'']
      exLoaded = exMerged"
    by (simp add: processRecent_Some exAttend_def newDate_def mergeRecent_def exLoaded_def
        exMerged_def isDateInArray_def ex_dates)
  ultimately show ?thesis by simp
qed

text \<open>
  Claim C3 fails in three reachable states. After a face is selected, and still after
  its fetch has returned no record and the absent-day effect has run, a past working day
  is in none of the three lists. After a fetch that returns a present and a late record
  of one day, that day is both a present and a late day. After a live record of a day
  that was absent is merged, and before the absent-day effect has run again, that day is
  both a present and an absent day.
\<close>

theorem calendar_invariant_counterexample:
  "reachable 0 exSelected \<and>
   calcAbsentDays 0 172800000
     (fst (loadAttendanceRecords (Resolved (Some []) None) (Resolved (Some []) None) exSelected))
     = exSelected \<and>
   \<not> classifiedUpTo 0 172800000 exSelected \<and>
   reachable 0 exLoaded \<and> \<not> pairwiseDisjoint 0 exLoaded \<and>
   reachable 0 exMerged \<and> \<not> absentApart 0 exMerged"
proof -
  have "fst (loadAttendanceRecords (Resolved (Some []) None) (Resolved (Some []) None) exSelected)
        = exSelected"
    by (simp add: loadAttendanceRecords_def fetch_Resolved orEmpty_def fetched_Nil exSelected_def)
  then have "calcAbsentDays 0 172800000
     (fst (loadAttendanceRecords (Resolved (Some []) None) (Resolved (Some []) None) exSelected))
     = exSelected"
    by (simp add: calcAbsentDays_def exSelected_def)
  moreover have "\<not> classifiedUpTo 0 172800000 exSelected"
    by (simp add: classifiedUpTo_def exSelected_def isDateInArray_def)
  moreover have "\<not> pairwiseDisjoint 0 exLoaded"
    by (simp add: pairwiseDisjoint_def exLoaded_def isDateInArray_def ex_dates)
  moreover have "\<not> absentApart 0 exMerged"
    by (simp add: absentApart_def exMerged_def isDateInArray_def ex_dates)
  ultimately show ?thesis
    using exSelected_reachable exLoaded_reachable exMerged_reachable by blast
qed

theorem calendar_invariant_witness:
  "reachable 0 exMerged \<and>
   absentApart 0 (calcAbsentDays 0 172800000 exMerged) \<and>
   classifiedUpTo 0 172800000 (calcAbsentDays 0 172800000 exMerged) \<and>
   absentDays (calcAbsentDays 0 172800000 exMerged) = [] \<and>
   reachable 0 exSelected \<and> calcAbsentDays 0 172800000 exSelected = exSelected"
proof -
  have m: "workingDays exMerged \<noteq> [] \<and>
        (attendanceDays exMerged \<noteq> [] \<or> lateAttendanceDays exMerged \<noteq> [])"
    by (simp add: exMerged_def)
  have s: "attendanceDays exSelected = [] \<and> lateAttendanceDays exSelected = []"
    by (simp add: exSelected_def)
  have a: "absentDays (calcAbsentDays 0 172800000 exMerged) = []"
    by (simp add: calcAbsentDays_def exMerged_def isDateInArray_def ex_dates)
  from m s a calendar_invariant[OF exMerged_reachable, of 172800000]
    calendar_invariant[OF exSelected_reachable, of 172800000]
    exMerged_reachable exSelected_reachable
  show ?thesis by blast
qed

section \<open>The order of the historical fetch and the live records\<close>





































section \<open>Unauthorized records without an identity\<close>











end
